theory Spec2Isabelle
  imports Complex_Main
begin

section \<open>JavaScript values used by the scripts\<close>

text \<open>
  A JavaScript number is NaN, an infinity or a finite double. A finite double is
  represented by the real number it denotes; the two zeros are one value, which is sound
  here because the scripts only compare numbers, test their truthiness and print them.
  The rounding of an exact result to a double is the platform function
  \<open>roundNumber\<close> below.
\<close>

datatype jsnum = NaN | NegInf | Fin real | PosInf

text \<open>The relational operators \<open><\<close> and \<open>>=\<close> on numbers: false when an operand is NaN.\<close>

fun js_lt :: "jsnum \<Rightarrow> jsnum \<Rightarrow> bool" where
  "js_lt NaN _ = False"
| "js_lt _ NaN = False"
| "js_lt PosInf _ = False"
| "js_lt _ NegInf = False"
| "js_lt NegInf _ = True"
| "js_lt _ PosInf = True"
| "js_lt (Fin x) (Fin y) = (x < y)"

definition js_ge :: "jsnum \<Rightarrow> jsnum \<Rightarrow> bool" where
  "js_ge a b = (a \<noteq> NaN \<and> b \<noteq> NaN \<and> \<not> js_lt a b)"

text \<open>Truthiness of a number, and \<open>a || b\<close> on numbers.\<close>

definition num_truthy :: "jsnum \<Rightarrow> bool" where
  "num_truthy n = (n \<noteq> NaN \<and> n \<noteq> Fin 0)"

definition js_or :: "jsnum \<Rightarrow> jsnum \<Rightarrow> jsnum" where
  "js_or a b = (if num_truthy a then a else b)"

text \<open>Addition of numbers; \<open>rnd\<close> rounds the exact sum of two finite operands.\<close>

fun js_add :: "(real \<Rightarrow> jsnum) \<Rightarrow> jsnum \<Rightarrow> jsnum \<Rightarrow> jsnum" where
  "js_add rnd NaN _ = NaN"
| "js_add rnd _ NaN = NaN"
| "js_add rnd PosInf NegInf = NaN"
| "js_add rnd NegInf PosInf = NaN"
| "js_add rnd PosInf _ = PosInf"
| "js_add rnd _ PosInf = PosInf"
| "js_add rnd NegInf _ = NegInf"
| "js_add rnd _ NegInf = NegInf"
| "js_add rnd (Fin x) (Fin y) = rnd (x + y)"

text \<open>
  The values a record field or a property can hold here: \<open>undefined\<close>, \<open>null\<close>,
  booleans, numbers and strings. An object (a loaded record, a search result, the object
  returned by \<open>lookupFields\<close>) is a finite map from field names to values.
\<close>

datatype jsval = JUndefined | JNull | JBool bool | JNum jsnum | JStr string

type_synonym jsobj = "string \<rightharpoonup> jsval"

text \<open>Property access \<open>obj.name\<close> and the record method \<open>getValue(name)\<close>.\<close>

definition property :: "jsobj \<Rightarrow> string \<Rightarrow> jsval" where
  "property obj name = (case obj name of None \<Rightarrow> JUndefined | Some v \<Rightarrow> v)"

definition getValue :: "jsobj \<Rightarrow> string \<Rightarrow> jsval" where
  "getValue rec name = (case rec name of None \<Rightarrow> JNull | Some v \<Rightarrow> v)"

fun truthy :: "jsval \<Rightarrow> bool" where
  "truthy JUndefined = False"
| "truthy JNull = False"
| "truthy (JBool b) = b"
| "truthy (JNum n) = num_truthy n"
| "truthy (JStr s) = (s \<noteq> [])"

section \<open>The platform\<close>

datatype ContextType = USEREVENT | OtherContext string

datatype UserEventType = CREATE | EDIT | DELETE | OtherType string

text \<open>
  What the scripts take from the JavaScript engine and from the host: the rounding of
  doubles and the printing of numbers, the execution context, and the three lookups, each
  of which returns a value or fails with a host error of type \<open>'e\<close>:
  \<^item> \<open>search_lookupFields id\<close> is \<open>search.lookupFields\<close> on the sales order \<open>id\<close>
    with the column \<open>total\<close>;
  \<^item> \<open>record_load id\<close> is \<open>record.load\<close> of the sales order \<open>id\<close>;
  \<^item> \<open>search_run id\<close> is the customer-deposit search filtered on the sales order
    \<open>id\<close>, giving the results that \<open>run().each\<close> visits, in order.
\<close>

record 'e platform =
  roundNumber :: "real \<Rightarrow> jsnum"
  numberToString :: "jsnum \<Rightarrow> string"
  executionContext :: ContextType
  search_lookupFields :: "jsval \<Rightarrow> 'e + jsobj"
  record_load :: "jsval \<Rightarrow> 'e + jsobj"
  search_run :: "jsval \<Rightarrow> 'e + jsobj list"

text \<open>\<open>ToString\<close>, as a template literal applies it to a substitution.\<close>

fun toString :: "'e platform \<Rightarrow> jsval \<Rightarrow> string" where
  "toString P JUndefined = ''undefined''"
| "toString P JNull = ''null''"
| "toString P (JBool b) = (if b then ''true'' else ''false'')"
| "toString P (JNum n) = numberToString P n"
| "toString P (JStr s) = s"

section \<open>parseFloat\<close>

text \<open>
  The global function \<open>parseFloat\<close>: the argument is converted to a string, leading white
  space is dropped, and the longest prefix that is a \<open>StrDecimalLiteral\<close> (an optional
  sign, then \<open>Infinity\<close> or decimal digits with an optional fraction and an optional
  exponent) gives the number; without such a prefix the result is NaN. Strings are byte
  strings, so the white space recognised is the ASCII white space.
\<close>

definition isWhiteSpace :: "char \<Rightarrow> bool" where
  "isWhiteSpace c = (c \<in> set [CHR 0x09, CHR 0x0A, CHR 0x0B, CHR 0x0C, CHR 0x0D, CHR 0x20])"

definition isDigit :: "char \<Rightarrow> bool" where
  "isDigit c = (c \<in> set ''0123456789'')"

definition digitValue :: "char \<Rightarrow> nat" where
  "digitValue c = of_char c - of_char CHR ''0''"

definition digitsValue :: "string \<Rightarrow> nat" where
  "digitsValue ds = foldl (\<lambda>n c. 10 * n + digitValue c) 0 ds"

definition scale10 :: "real \<Rightarrow> int \<Rightarrow> real" where
  "scale10 m e = (if 0 \<le> e then m * 10 ^ nat e else m / 10 ^ nat (- e))"

text \<open>The value of an \<open>ExponentPart\<close> at the start of the string; 0 when there is none.\<close>

definition exponentPart :: "string \<Rightarrow> int" where
  "exponentPart s =
     (case s of
        [] \<Rightarrow> 0
      | c # t \<Rightarrow>
          if c = CHR ''e'' \<or> c = CHR ''E'' then
            (case t of
               [] \<Rightarrow> 0
             | d # u \<Rightarrow>
                 if d = CHR ''-'' then - int (digitsValue (takeWhile isDigit u))
                 else if d = CHR ''+'' then int (digitsValue (takeWhile isDigit u))
                 else int (digitsValue (takeWhile isDigit t)))
          else 0)"

definition unsignedLiteral :: "'e platform \<Rightarrow> string \<Rightarrow> jsnum" where
  "unsignedLiteral P s =
     (if take 8 s = ''Infinity'' then PosInf
      else
        let intDigits = takeWhile isDigit s;
            r1 = dropWhile isDigit s;
            hasDot = (r1 \<noteq> [] \<and> hd r1 = CHR ''.'');
            fracDigits = (if hasDot then takeWhile isDigit (tl r1) else []);
            r2 = (if hasDot then dropWhile isDigit (tl r1) else r1)
        in if intDigits = [] \<and> fracDigits = [] then NaN
           else roundNumber P
                  (scale10 (real (digitsValue (intDigits @ fracDigits)))
                     (exponentPart r2 - int (length fracDigits))))"

fun js_neg :: "jsnum \<Rightarrow> jsnum" where
  "js_neg NaN = NaN"
| "js_neg NegInf = PosInf"
| "js_neg PosInf = NegInf"
| "js_neg (Fin x) = Fin (- x)"

definition parseFloat :: "'e platform \<Rightarrow> jsval \<Rightarrow> jsnum" where
  "parseFloat P v =
     (let trimmed = dropWhile isWhiteSpace (toString P v) in
      case trimmed of
        [] \<Rightarrow> NaN
      | c # rest \<Rightarrow>
          if c = CHR ''-'' then js_neg (unsignedLiteral P rest)
          else if c = CHR ''+'' then unsignedLiteral P rest
          else unsignedLiteral P trimmed)"

section \<open>Effects\<close>

text \<open>
  Every call of a collaborator is recorded in a trace, so that what a run did not do can be
  stated. A thrown value is a bare string (the scripts throw one to deny) or a host error.
  A computation takes the trace so far and returns the extended trace with either the
  thrown value or the result.
\<close>

datatype level = DEBUG | AUDIT

datatype event =
    Lookup_Fields jsval
  | Record_Load jsval
  | Search_Run jsval
  | LogEntry level string string

datatype 'e thrown = ThrownString string | ThrownError 'e

type_synonym ('e, 'a) js = "event list \<Rightarrow> event list \<times> ('e thrown + 'a)"

definition js_return :: "'a \<Rightarrow> ('e, 'a) js" where
  "js_return x tr = (tr, Inr x)"

definition js_throw :: "'e thrown \<Rightarrow> ('e, 'a) js" where
  "js_throw e tr = (tr, Inl e)"

definition js_bind :: "('e, 'a) js \<Rightarrow> ('a \<Rightarrow> ('e, 'b) js) \<Rightarrow> ('e, 'b) js" where
  "js_bind m f tr = (case m tr of (tr', Inl e) \<Rightarrow> (tr', Inl e) | (tr', Inr x) \<Rightarrow> f x tr')"

text \<open>\<open>try { m } catch (e) { h e }\<close>\<close>

definition js_try :: "('e, 'a) js \<Rightarrow> ('e thrown \<Rightarrow> ('e, 'a) js) \<Rightarrow> ('e, 'a) js" where
  "js_try m h tr = (case m tr of (tr', Inl e) \<Rightarrow> h e tr' | (tr', Inr x) \<Rightarrow> (tr', Inr x))"

text \<open>A call of a host lookup: recorded, then its value or its error thrown.\<close>

definition host_call :: "event \<Rightarrow> 'e + 'a \<Rightarrow> ('e, 'a) js" where
  "host_call ev r tr =
     (tr @ [ev], case r of Inl e \<Rightarrow> Inl (ThrownError e) | Inr v \<Rightarrow> Inr v)"

definition log_audit :: "string \<Rightarrow> string \<Rightarrow> ('e, unit) js" where
  "log_audit title details tr = (tr @ [LogEntry AUDIT title details], Inr ())"

definition log_debug :: "string \<Rightarrow> string \<Rightarrow> ('e, unit) js" where
  "log_debug title details tr = (tr @ [LogEntry DEBUG title details], Inr ())"

section \<open>applyRestrictionLogic\<close>

text \<open>The function of \<open>src/unnamed/part_000\<close> (OTP-9678).\<close>

definition applyRestrictionLogic_9678 ::
  "'e platform \<Rightarrow> ContextType \<Rightarrow> jsval \<Rightarrow> jsnum \<Rightarrow> jsnum \<Rightarrow> ('e, unit) js" where
  "applyRestrictionLogic_9678 P execContext soId soTotal depositTotal =
     js_try
       (if execContext = USEREVENT then
          (if js_lt depositTotal soTotal then
             log_audit ''Restriction Bypassed''
               (''Bulk fulfillment detected for Sales Order '' @ toString P soId
                @ ''. Deposit less than Sales Order total, but restriction bypassed.'')
           else
             log_audit ''Bulk Fulfillment Allowed''
               (''Deposit sufficient for Sales Order '' @ toString P soId
                @ ''. Bulk fulfillment proceeding.''))
        else
          (if js_lt depositTotal soTotal then
             js_throw (ThrownString
               (''Cannot fulfill this Sales Order ('' @ toString P soId
                @ ''). Total deposit ('' @ numberToString P depositTotal
                @ '') is less than the order total ('' @ numberToString P soTotal @ '').''))
           else
             log_audit ''Validation Passed''
               (''Deposit sufficient for Sales Order '' @ toString P soId
                @ ''. Single fulfillment allowed.'')))
       (\<lambda>e. js_throw e)"

text \<open>The function of \<open>src/OTP-9419-Restrict-If-Save/_jj_ue_restrict_item_fullfillment.js\<close>.\<close>

definition applyRestrictionLogic_9419 ::
  "'e platform \<Rightarrow> ContextType \<Rightarrow> jsval \<Rightarrow> jsnum \<Rightarrow> jsnum \<Rightarrow> ('e, unit) js" where
  "applyRestrictionLogic_9419 P execContext soId soTotal depositTotal =
     js_try
       (if execContext = USEREVENT then
          (if js_lt depositTotal soTotal then
             log_audit ''Restriction Bypassed''
               (''Bulk fulfillment detected for Sales Order '' @ toString P soId
                @ ''. Deposit less than Sales Order total, but restriction bypassed.'')
           else
             log_audit ''Bulk Fulfillment Allowed''
               (''Deposit sufficient for Sales Order '' @ toString P soId
                @ ''. Bulk fulfillment proceeding.''))
        else
          (if js_lt depositTotal soTotal then
             js_throw (ThrownString
               (''Cannot fulfill this Sales Order ('' @ toString P soId
                @ ''). Total deposit ('' @ numberToString P depositTotal
                @ '') is less than the order total ('' @ numberToString P soTotal @ '').''))
           else
             log_debug ''Validation Passed''
               (''Deposit sufficient for Sales Order '' @ toString P soId
                @ ''. Single fulfillment allowed.'')))
       (\<lambda>e. js_throw e)"

section \<open>getSalesOrderAndDepositTotals\<close>

text \<open>
  \<open>ResultSet.each\<close>: the callback is applied to each result in turn for as long as it
  returns \<open>true\<close>. The callback of the scripts updates the variable \<open>depositTotal\<close> it
  closes over, which is the state threaded here.
\<close>

fun each :: "('r \<Rightarrow> 's \<Rightarrow> 's \<times> bool) \<Rightarrow> 'r list \<Rightarrow> 's \<Rightarrow> 's" where
  "each callback [] s = s"
| "each callback (r # rs) s =
     (case callback r s of (s', continue) \<Rightarrow> if continue then each callback rs s' else s')"

text \<open>\<open>src/unnamed/part_000\<close>: the order total is read with \<open>search.lookupFields\<close>.\<close>

definition getSalesOrderAndDepositTotals_9678 ::
  "'e platform \<Rightarrow> jsval \<Rightarrow> ('e, jsnum \<times> jsnum) js" where
  "getSalesOrderAndDepositTotals_9678 P soId =
     js_try
       (js_bind (host_call (Lookup_Fields soId) (search_lookupFields P soId)) (\<lambda>soData.
          let soTotal = js_or (parseFloat P (property soData ''total'')) (Fin 0) in
          js_bind (host_call (Search_Run soId) (search_run P soId)) (\<lambda>results.
            let depositTotal =
                  each (\<lambda>result depositTotal.
                          (js_add (roundNumber P) depositTotal
                             (js_or (parseFloat P (getValue result ''total'')) (Fin 0)),
                           True))
                    results (Fin 0)
            in js_return (soTotal, depositTotal))))
       (\<lambda>e. js_throw e)"

text \<open>
  \<open>src/OTP-9419-Restrict-If-Save/_jj_ue_restrict_item_fullfillment.js\<close>: the order is
  loaded with \<open>record.load\<close> and its total read with \<open>getValue\<close>.
\<close>

definition getSalesOrderAndDepositTotals_9419 ::
  "'e platform \<Rightarrow> jsval \<Rightarrow> ('e, jsnum \<times> jsnum) js" where
  "getSalesOrderAndDepositTotals_9419 P soId =
     js_try
       (js_bind (host_call (Record_Load soId) (record_load P soId)) (\<lambda>soRec.
          let soTotal = js_or (parseFloat P (getValue soRec ''total'')) (Fin 0) in
          js_bind (host_call (Search_Run soId) (search_run P soId)) (\<lambda>results.
            let depositTotal =
                  each (\<lambda>result depositTotal.
                          (js_add (roundNumber P) depositTotal
                             (js_or (parseFloat P (getValue result ''total'')) (Fin 0)),
                           True))
                    results (Fin 0)
            in js_return (soTotal, depositTotal))))
       (\<lambda>e. js_throw e)"

section \<open>beforeSubmit\<close>

record scriptContext =
  newRecord :: jsobj
  oldRecord :: "jsobj option"
  type :: UserEventType

definition handleError_9678 :: "'e thrown \<Rightarrow> ('e, unit) js" where
  "handleError_9678 e = js_throw e"

definition handleError_9419 :: "'e thrown \<Rightarrow> ('e, unit) js" where
  "handleError_9419 e = js_throw e"

definition beforeSubmit_9678 :: "'e platform \<Rightarrow> scriptContext \<Rightarrow> ('e, unit) js" where
  "beforeSubmit_9678 P sc =
     js_try
       (if type sc \<noteq> CREATE then js_return ()
        else
          let newRec = newRecord sc;
              execContext = executionContext P;
              soId = getValue newRec ''createdfrom''
          in if \<not> truthy soId then js_return ()
             else
               js_bind (getSalesOrderAndDepositTotals_9678 P soId) (\<lambda>(soTotal, depositTotal).
               js_bind (log_audit ''Deposit Validation''
                          (''Sales Order ID: '' @ toString P soId
                           @ '' | Sales Order Total: '' @ numberToString P soTotal
                           @ '' | Deposit Total: '' @ numberToString P depositTotal)) (\<lambda>_.
               applyRestrictionLogic_9678 P execContext soId soTotal depositTotal)))
       handleError_9678"

definition beforeSubmit_9419 :: "'e platform \<Rightarrow> scriptContext \<Rightarrow> ('e, unit) js" where
  "beforeSubmit_9419 P sc =
     js_try
       (if type sc \<noteq> CREATE then
          js_bind (log_debug ''Exit'' ''Not a Create operation.'') (\<lambda>_. js_return ())
        else
          let newRec = newRecord sc;
              execContext = executionContext P;
              soId = getValue newRec ''createdfrom''
          in if \<not> truthy soId then
               js_bind (log_debug ''Skip'' ''No Sales Order linked.'') (\<lambda>_. js_return ())
             else
               js_bind (getSalesOrderAndDepositTotals_9419 P soId) (\<lambda>(soTotal, depositTotal).
               js_bind (log_debug ''Deposit Validation''
                          (''Sales Order ID: '' @ toString P soId
                           @ '' | Sales Order Total: '' @ numberToString P soTotal
                           @ '' | Deposit Total: '' @ numberToString P depositTotal)) (\<lambda>_.
               applyRestrictionLogic_9419 P execContext soId soTotal depositTotal)))
       handleError_9419"

section \<open>A platform for the examples\<close>

text \<open>
  The examples run on a platform with exact arithmetic (no rounding), host errors that are
  strings, and lookups that answer the same for every sales order. Only integral numbers
  are printed in the examples; they are printed in decimal, as \<open>Number::toString\<close>
  prints them.
\<close>

fun natToString :: "nat \<Rightarrow> string" where
  "natToString n =
     (if n < 10 then [''0123456789'' ! n]
      else natToString (n div 10) @ [''0123456789'' ! (n mod 10)])"

fun integralToString :: "jsnum \<Rightarrow> string" where
  "integralToString NaN = ''NaN''"
| "integralToString PosInf = ''Infinity''"
| "integralToString NegInf = ''-Infinity''"
| "integralToString (Fin x) =
     (if x < 0 then ''-'' @ natToString (nat \<lfloor>- x\<rfloor>) else natToString (nat \<lfloor>x\<rfloor>))"

definition examplePlatform ::
  "ContextType \<Rightarrow> string + jsobj \<Rightarrow> string + jsobj list \<Rightarrow> string platform" where
  "examplePlatform ctx order deposits =
     \<lparr> roundNumber = Fin,
       numberToString = integralToString,
       executionContext = ctx,
       search_lookupFields = (\<lambda>_. order),
       record_load = (\<lambda>_. order),
       search_run = (\<lambda>_. deposits) \<rparr>"

definition exampleEvent :: "UserEventType \<Rightarrow> jsval \<Rightarrow> scriptContext" where
  "exampleEvent t soId =
     \<lparr> newRecord = [''createdfrom'' \<mapsto> soId], oldRecord = None, type = t \<rparr>"

section \<open>Rounding to binary64\<close>








section \<open>Notions used to state the properties\<close>

text \<open>\<open>contains msg s\<close>: the string \<open>s\<close> occurs in \<open>msg\<close>.\<close>

fun contains :: "string \<Rightarrow> string \<Rightarrow> bool" where
  "contains [] s = (s = [])"
| "contains (c # cs) s = (take (length s) (c # cs) = s \<or> contains cs s)"

text \<open>A trace with every log entry raised to the audit level.\<close>

fun atAudit :: "event \<Rightarrow> event" where
  "atAudit (LogEntry l title details) = LogEntry AUDIT title details"
| "atAudit ev = ev"

text \<open>A trace with every read of the order by \<open>record.load\<close> taken as one by \<open>lookupFields\<close>.\<close>

fun sameFetch :: "event \<Rightarrow> event" where
  "sameFetch (Record_Load soId) = Lookup_Fields soId"
| "sameFetch ev = ev"

section \<open>Auxiliary facts\<close>

lemmas effect_defs =
  js_try_def js_bind_def js_return_def js_throw_def host_call_def log_audit_def log_debug_def

lemmas parse_defs =
  parseFloat_def unsignedLiteral_def exponentPart_def scale10_def digitsValue_def
  digitValue_def isDigit_def isWhiteSpace_def

lemmas value_defs = js_ge_def js_or_def num_truthy_def getValue_def property_def

lemmas example_defs = examplePlatform_def exampleEvent_def

lemma js_ge_not_lt: "js_ge a b \<Longrightarrow> \<not> js_lt a b"
  by (simp add: js_ge_def)

lemma contains_take: "take (length s) xs = s \<Longrightarrow> contains xs s"
  by (cases xs) auto

lemma contains_prefix: "contains (s @ post) s"
  by (rule contains_take) simp

lemma contains_mid: "contains (pre @ s @ post) s"
  by (induction pre) (simp_all add: contains_prefix)

lemma js_try_rethrow: "js_try m (\<lambda>e. js_throw e) = m"
  by (rule ext) (simp add: js_try_def js_throw_def split: prod.splits sum.splits)

lemma each_foldl: "each (\<lambda>r acc. (f acc (g r), True)) rs s = foldl f s (map g rs)"
  by (induction rs arbitrary: s) simp_all

lemma totals_9678:
  assumes "search_lookupFields P soId = Inr soData" and "search_run P soId = Inr results"
  shows "getSalesOrderAndDepositTotals_9678 P soId tr =
     (tr @ [Lookup_Fields soId, Search_Run soId],
      Inr (js_or (parseFloat P (property soData ''total'')) (Fin 0),
           foldl (js_add (roundNumber P)) (Fin 0)
             (map (\<lambda>r. js_or (parseFloat P (getValue r ''total'')) (Fin 0)) results)))"
  using assms
  by (simp add: getSalesOrderAndDepositTotals_9678_def js_try_rethrow js_bind_def host_call_def
      js_return_def
      each_foldl [where f = "js_add (roundNumber P)"
        and g = "\<lambda>r. js_or (parseFloat P (getValue r ''total'')) (Fin 0)"])

lemma totals_9419:
  assumes "record_load P soId = Inr soRec" and "search_run P soId = Inr results"
  shows "getSalesOrderAndDepositTotals_9419 P soId tr =
     (tr @ [Record_Load soId, Search_Run soId],
      Inr (js_or (parseFloat P (getValue soRec ''total'')) (Fin 0),
           foldl (js_add (roundNumber P)) (Fin 0)
             (map (\<lambda>r. js_or (parseFloat P (getValue r ''total'')) (Fin 0)) results)))"
  using assms
  by (simp add: getSalesOrderAndDepositTotals_9419_def js_try_rethrow js_bind_def host_call_def
      js_return_def
      each_foldl [where f = "js_add (roundNumber P)"
        and g = "\<lambda>r. js_or (parseFloat P (getValue r ''total'')) (Fin 0)"])

lemma js_add_nonneg:
  assumes "\<forall>x\<ge>0. js_ge (rnd x) (Fin 0)" and "js_ge a (Fin 0)" and "js_ge b (Fin 0)"
  shows "js_ge (js_add rnd a b) (Fin 0)"
  using assms by (cases a; cases b) (simp_all add: js_ge_def)

lemma foldl_js_add_nonneg:
  assumes "\<forall>x\<ge>0. js_ge (rnd x) (Fin 0)" and "js_ge a (Fin 0)"
    and "\<forall>b\<in>set bs. js_ge b (Fin 0)"
  shows "js_ge (foldl (js_add rnd) a bs) (Fin 0)"
  using assms by (induction bs arbitrary: a) (simp_all add: js_add_nonneg)



lemma totals_9678_lookup_fails:
  assumes "search_lookupFields P soId = Inl e"
  shows "getSalesOrderAndDepositTotals_9678 P soId tr
           = (tr @ [Lookup_Fields soId], Inl (ThrownError e))"
  using assms
  by (simp add: getSalesOrderAndDepositTotals_9678_def js_try_rethrow js_bind_def host_call_def)

lemma totals_9678_search_fails:
  assumes "search_lookupFields P soId = Inr soData" and "search_run P soId = Inl e"
  shows "getSalesOrderAndDepositTotals_9678 P soId tr
           = (tr @ [Lookup_Fields soId, Search_Run soId], Inl (ThrownError e))"
  using assms
  by (simp add: getSalesOrderAndDepositTotals_9678_def js_try_rethrow js_bind_def host_call_def)

lemma totals_9419_load_fails:
  assumes "record_load P soId = Inl e"
  shows "getSalesOrderAndDepositTotals_9419 P soId tr
           = (tr @ [Record_Load soId], Inl (ThrownError e))"
  using assms
  by (simp add: getSalesOrderAndDepositTotals_9419_def js_try_rethrow js_bind_def host_call_def)

lemma totals_9419_search_fails:
  assumes "record_load P soId = Inr soRec" and "search_run P soId = Inl e"
  shows "getSalesOrderAndDepositTotals_9419 P soId tr
           = (tr @ [Record_Load soId, Search_Run soId], Inl (ThrownError e))"
  using assms
  by (simp add: getSalesOrderAndDepositTotals_9419_def js_try_rethrow js_bind_def host_call_def)

lemma js_try_handleError: "js_try m handleError_9678 = m" "js_try m handleError_9419 = m"
  by (rule ext, simp add: js_try_def handleError_9678_def handleError_9419_def js_throw_def
      split: prod.splits sum.splits)+

text \<open>
  On a linked \<open>CREATE\<close> event, \<open>beforeSubmit\<close> throws whatever the fetch of the
  totals throws.
\<close>

lemma beforeSubmit_9678_fetch_throws:
  assumes "type sc = CREATE" and "truthy (getValue (newRecord sc) ''createdfrom'')"
    and "getSalesOrderAndDepositTotals_9678 P (getValue (newRecord sc) ''createdfrom'') tr
           = (tr', Inl x)"
  shows "beforeSubmit_9678 P sc tr = (tr', Inl x)"
  using assms
  by (simp add: beforeSubmit_9678_def js_try_handleError js_bind_def Let_def)

lemma beforeSubmit_9419_fetch_throws:
  assumes "type sc = CREATE" and "truthy (getValue (newRecord sc) ''createdfrom'')"
    and "getSalesOrderAndDepositTotals_9419 P (getValue (newRecord sc) ''createdfrom'') tr
           = (tr', Inl x)"
  shows "beforeSubmit_9419 P sc tr = (tr', Inl x)"
  using assms
  by (simp add: beforeSubmit_9419_def js_try_handleError js_bind_def Let_def)

text \<open>
  On a linked \<open>CREATE\<close> event with the totals fetched, \<open>beforeSubmit\<close> logs them
  and decides.
\<close>

lemma beforeSubmit_9678_fetched:
  assumes "type sc = CREATE" and "truthy (getValue (newRecord sc) ''createdfrom'')"
    and "getSalesOrderAndDepositTotals_9678 P (getValue (newRecord sc) ''createdfrom'') tr
           = (tr', Inr (soTotal, depositTotal))"
  shows "beforeSubmit_9678 P sc tr
           = applyRestrictionLogic_9678 P (executionContext P)
               (getValue (newRecord sc) ''createdfrom'') soTotal depositTotal
               (tr' @ [LogEntry AUDIT ''Deposit Validation''
                         (''Sales Order ID: '' @ toString P (getValue (newRecord sc) ''createdfrom'')
                          @ '' | Sales Order Total: '' @ numberToString P soTotal
                          @ '' | Deposit Total: '' @ numberToString P depositTotal)])"
  using assms
  by (simp add: beforeSubmit_9678_def js_try_handleError js_bind_def log_audit_def Let_def)

lemma beforeSubmit_9419_fetched:
  assumes "type sc = CREATE" and "truthy (getValue (newRecord sc) ''createdfrom'')"
    and "getSalesOrderAndDepositTotals_9419 P (getValue (newRecord sc) ''createdfrom'') tr
           = (tr', Inr (soTotal, depositTotal))"
  shows "beforeSubmit_9419 P sc tr
           = applyRestrictionLogic_9419 P (executionContext P)
               (getValue (newRecord sc) ''createdfrom'') soTotal depositTotal
               (tr' @ [LogEntry DEBUG ''Deposit Validation''
                         (''Sales Order ID: '' @ toString P (getValue (newRecord sc) ''createdfrom'')
                          @ '' | Sales Order Total: '' @ numberToString P soTotal
                          @ '' | Deposit Total: '' @ numberToString P depositTotal)])"
  using assms
  by (simp add: beforeSubmit_9419_def js_try_handleError js_bind_def log_debug_def Let_def)

lemma js_or_nonneg:
  assumes "n = NaN \<or> js_ge n (Fin 0)"
  shows "js_ge (js_or n (Fin 0)) (Fin 0)"
  using assms by (auto simp: js_or_def num_truthy_def js_ge_def)

text \<open>
  On every event, when the two ways of reading the order total fail alike or give the same
  number, \<open>beforeSubmit\<close> of the two files has the same outcome, and on a linked
  \<open>CREATE\<close> event the same trace up to the way of reading and the level of the entries.
\<close>

lemma beforeSubmit_outcomes_agree:
  assumes "soId = getValue (newRecord sc) ''createdfrom''"
    and "map_sum id (\<lambda>soData. js_or (parseFloat P (property soData ''total'')) (Fin 0))
           (search_lookupFields P soId)
         = map_sum id (\<lambda>soRec. js_or (parseFloat P (getValue soRec ''total'')) (Fin 0))
           (record_load P soId)"
  shows "snd (beforeSubmit_9678 P sc tr) = snd (beforeSubmit_9419 P sc tr)"
proof (cases "type sc = CREATE \<and> truthy soId")
  case False
  then show ?thesis
    using assms(1) by (auto simp: beforeSubmit_9678_def beforeSubmit_9419_def effect_defs)
next
  case True
  then have c: "type sc = CREATE" and l: "truthy (getValue (newRecord sc) ''createdfrom'')"
    using assms(1) by simp_all
  show ?thesis
  proof (cases "search_lookupFields P soId")
    case (Inl e)
    then have "record_load P soId = Inl e"
      using assms(2) by (cases "record_load P soId") simp_all
    then show ?thesis
      using Inl beforeSubmit_9678_fetch_throws [OF c l, of P tr]
        beforeSubmit_9419_fetch_throws [OF c l, of P tr]
        totals_9678_lookup_fails [of P soId e tr] totals_9419_load_fails [of P soId e tr]
        assms(1)
      by simp
  next
    case (Inr soData)
    then obtain soRec where r: "record_load P soId = Inr soRec"
      and eq: "js_or (parseFloat P (property soData ''total'')) (Fin 0)
             = js_or (parseFloat P (getValue soRec ''total'')) (Fin 0)"
      using assms(2) by (cases "record_load P soId") simp_all
    show ?thesis
    proof (cases "search_run P soId")
      case (Inl e)
      then show ?thesis
        using Inr r beforeSubmit_9678_fetch_throws [OF c l, of P tr]
          beforeSubmit_9419_fetch_throws [OF c l, of P tr]
          totals_9678_search_fails [of P soId soData e tr]
          totals_9419_search_fails [of P soId soRec e tr] assms(1)
        by simp
    next
      case (Inr results)
      show ?thesis
        using beforeSubmit_9678_fetched [OF c l, of P tr]
          beforeSubmit_9419_fetched [OF c l, of P tr]
          totals_9678 [OF \<open>search_lookupFields P soId = Inr soData\<close> Inr, of tr]
          totals_9419 [OF r Inr, of tr] eq assms(1)
        by (simp add: applyRestrictionLogic_9678_def applyRestrictionLogic_9419_def
            js_try_rethrow log_audit_def log_debug_def js_throw_def)
    qed
  qed
qed

lemma beforeSubmit_traces_agree:
  assumes "type sc = CREATE" and "soId = getValue (newRecord sc) ''createdfrom''"
    and "truthy soId"
    and "map_sum id (\<lambda>soData. js_or (parseFloat P (property soData ''total'')) (Fin 0))
           (search_lookupFields P soId)
         = map_sum id (\<lambda>soRec. js_or (parseFloat P (getValue soRec ''total'')) (Fin 0))
           (record_load P soId)"
  shows "map (atAudit \<circ> sameFetch) (fst (beforeSubmit_9678 P sc tr))
       = map (atAudit \<circ> sameFetch) (fst (beforeSubmit_9419 P sc tr))"
proof -
  have c: "type sc = CREATE" and l: "truthy (getValue (newRecord sc) ''createdfrom'')"
    using assms(1,2,3) by simp_all
  show ?thesis
  proof (cases "search_lookupFields P soId")
    case (Inl e)
    then have "record_load P soId = Inl e"
      using assms(4) by (cases "record_load P soId") simp_all
    then show ?thesis
      using Inl beforeSubmit_9678_fetch_throws [OF c l, of P tr]
        beforeSubmit_9419_fetch_throws [OF c l, of P tr]
        totals_9678_lookup_fails [of P soId e tr] totals_9419_load_fails [of P soId e tr]
        assms(2)
      by simp
  next
    case (Inr soData)
    then obtain soRec where r: "record_load P soId = Inr soRec"
      and eq: "js_or (parseFloat P (property soData ''total'')) (Fin 0)
             = js_or (parseFloat P (getValue soRec ''total'')) (Fin 0)"
      using assms(4) by (cases "record_load P soId") simp_all
    show ?thesis
    proof (cases "search_run P soId")
      case (Inl e)
      then show ?thesis
        using Inr r beforeSubmit_9678_fetch_throws [OF c l, of P tr]
          beforeSubmit_9419_fetch_throws [OF c l, of P tr]
          totals_9678_search_fails [of P soId soData e tr]
          totals_9419_search_fails [of P soId soRec e tr] assms(2)
        by simp
    next
      case (Inr results)
      show ?thesis
        using beforeSubmit_9678_fetched [OF c l, of P tr]
          beforeSubmit_9419_fetched [OF c l, of P tr]
          totals_9678 [OF \<open>search_lookupFields P soId = Inr soData\<close> Inr, of tr]
          totals_9419 [OF r Inr, of tr] eq assms(2)
        by (simp add: applyRestrictionLogic_9678_def applyRestrictionLogic_9419_def
            js_try_rethrow log_audit_def log_debug_def js_throw_def)
    qed
  qed
qed











section \<open>The decision\<close>

text \<open>
  C1. Whenever \<open>depositTotal >= soTotal\<close>, equality included, \<open>applyRestrictionLogic\<close>
  returns normally (allows) in every execution context, in both files: the test is the
  strict \<open>depositTotal < soTotal\<close>.
\<close>

theorem sufficient_deposit_allows:
  assumes "js_ge depositTotal soTotal"
  shows "snd (applyRestrictionLogic_9678 P execContext soId soTotal depositTotal tr) = Inr ()
       \<and> snd (applyRestrictionLogic_9419 P execContext soId soTotal depositTotal tr) = Inr ()"
  using js_ge_not_lt [OF assms]
  by (simp add: applyRestrictionLogic_9678_def applyRestrictionLogic_9419_def js_try_rethrow
      log_audit_def log_debug_def)

theorem sufficient_deposit_allows_witness:
  "js_ge (Fin 1000) (Fin 1000)
   \<and> snd (applyRestrictionLogic_9678 (examplePlatform (OtherContext ''SUITELET'') (Inl ''-'') (Inl ''-''))
          (OtherContext ''SUITELET'') (JStr ''7'') (Fin 1000) (Fin 1000) []) = Inr ()
   \<and> snd (applyRestrictionLogic_9419 (examplePlatform (OtherContext ''SUITELET'') (Inl ''-'') (Inl ''-''))
          (OtherContext ''SUITELET'') (JStr ''7'') (Fin 1000) (Fin 1000) []) = Inr ()"
  using sufficient_deposit_allows [of "Fin 1000" "Fin 1000"
      "examplePlatform (OtherContext ''SUITELET'') (Inl ''-'') (Inl ''-'')"
      "OtherContext ''SUITELET''" "JStr ''7''" "[]"]
  by (simp add: js_ge_def)

text \<open>
  C2. Whenever \<open>depositTotal < soTotal\<close> and the execution context is not
  \<open>USEREVENT\<close>, \<open>applyRestrictionLogic\<close> throws a string, having logged nothing, and
  that string contains the sales order reference, the deposit total and the order total.
\<close>

theorem insufficient_deposit_denies:
  assumes "js_lt depositTotal soTotal" and "execContext \<noteq> USEREVENT"
  shows "let message =
             ''Cannot fulfill this Sales Order ('' @ toString P soId
             @ ''). Total deposit ('' @ numberToString P depositTotal
             @ '') is less than the order total ('' @ numberToString P soTotal @ '').''
         in applyRestrictionLogic_9678 P execContext soId soTotal depositTotal tr
              = (tr, Inl (ThrownString message))
          \<and> applyRestrictionLogic_9419 P execContext soId soTotal depositTotal tr
              = (tr, Inl (ThrownString message))
          \<and> contains message (toString P soId)
          \<and> contains message (numberToString P depositTotal)
          \<and> contains message (numberToString P soTotal)"
proof -
  have c1: "contains (a @ toString P soId @ b) (toString P soId)" for a b
    by (rule contains_mid)
  have c2: "contains (a @ s @ b @ numberToString P depositTotal @ c)
              (numberToString P depositTotal)" for a s b c
    using contains_mid [of "a @ s @ b" "numberToString P depositTotal" c] by simp
  have c3: "contains (a @ s @ b @ t @ c @ numberToString P soTotal @ d)
              (numberToString P soTotal)" for a s b t c d
    using contains_mid [of "a @ s @ b @ t @ c" "numberToString P soTotal" d] by simp
  show ?thesis
    unfolding Let_def
    using assms c1 c2 c3
    by (simp only: applyRestrictionLogic_9678_def applyRestrictionLogic_9419_def js_try_rethrow
        js_throw_def if_False if_True simp_thms)
qed

theorem insufficient_deposit_denies_witness:
  "js_lt (Fin 400) (Fin 1000) \<and> OtherContext ''SUITELET'' \<noteq> USEREVENT
   \<and> applyRestrictionLogic_9678 (examplePlatform (OtherContext ''SUITELET'') (Inl ''-'') (Inl ''-''))
        (OtherContext ''SUITELET'') (JStr ''7'') (Fin 1000) (Fin 400) []
      = ([], Inl (ThrownString
           ''Cannot fulfill this Sales Order (7). Total deposit (400) is less than the order total (1000).''))
   \<and> applyRestrictionLogic_9419 (examplePlatform (OtherContext ''SUITELET'') (Inl ''-'') (Inl ''-''))
        (OtherContext ''SUITELET'') (JStr ''7'') (Fin 1000) (Fin 400) []
      = ([], Inl (ThrownString
           ''Cannot fulfill this Sales Order (7). Total deposit (400) is less than the order total (1000).''))
   \<and> contains
        ''Cannot fulfill this Sales Order (7). Total deposit (400) is less than the order total (1000).''
        ''400''
   \<and> contains
        ''Cannot fulfill this Sales Order (7). Total deposit (400) is less than the order total (1000).''
        ''1000''"
  using insufficient_deposit_denies [of "Fin 400" "Fin 1000" "OtherContext ''SUITELET''"
      "examplePlatform (OtherContext ''SUITELET'') (Inl ''-'') (Inl ''-'')" "JStr ''7''" "[]"]
  by (simp add: examplePlatform_def Let_def)

text \<open>
  C3. Whenever \<open>depositTotal < soTotal\<close> and the execution context is \<open>USEREVENT\<close>,
  \<open>applyRestrictionLogic\<close> returns normally after the audit entry of the bypass; nothing
  is thrown.
\<close>

theorem userevent_bypass_allows:
  assumes "js_lt depositTotal soTotal"
  shows "applyRestrictionLogic_9678 P USEREVENT soId soTotal depositTotal tr
           = (tr @ [LogEntry AUDIT ''Restriction Bypassed''
                      (''Bulk fulfillment detected for Sales Order '' @ toString P soId
                       @ ''. Deposit less than Sales Order total, but restriction bypassed.'')],
              Inr ())
       \<and> applyRestrictionLogic_9419 P USEREVENT soId soTotal depositTotal tr
           = (tr @ [LogEntry AUDIT ''Restriction Bypassed''
                      (''Bulk fulfillment detected for Sales Order '' @ toString P soId
                       @ ''. Deposit less than Sales Order total, but restriction bypassed.'')],
              Inr ())"
  using assms
  by (simp add: applyRestrictionLogic_9678_def applyRestrictionLogic_9419_def js_try_rethrow
      log_audit_def)

theorem userevent_bypass_allows_witness:
  "js_lt (Fin 400) (Fin 1000)
   \<and> applyRestrictionLogic_9678 (examplePlatform USEREVENT (Inl ''-'') (Inl ''-''))
        USEREVENT (JStr ''7'') (Fin 1000) (Fin 400) []
      = ([LogEntry AUDIT ''Restriction Bypassed''
            ''Bulk fulfillment detected for Sales Order 7. Deposit less than Sales Order total, but restriction bypassed.''],
         Inr ())
   \<and> applyRestrictionLogic_9419 (examplePlatform USEREVENT (Inl ''-'') (Inl ''-''))
        USEREVENT (JStr ''7'') (Fin 1000) (Fin 400) []
      = ([LogEntry AUDIT ''Restriction Bypassed''
            ''Bulk fulfillment detected for Sales Order 7. Deposit less than Sales Order total, but restriction bypassed.''],
         Inr ())"
  using userevent_bypass_allows [of "Fin 400" "Fin 1000"
      "examplePlatform USEREVENT (Inl ''-'') (Inl ''-'')" "JStr ''7''" "[]"]
  by simp

section \<open>The entry point\<close>

text \<open>
  C4 (as amended). For an event whose type is not \<open>CREATE\<close>, \<open>beforeSubmit\<close> returns
  normally without any lookup, search, decision or denial. In \<open>src/unnamed/part_000\<close>
  the trace is unchanged; in the file of OTP-9419 the one effect is the debug entry
  \<open>Exit\<close>.
\<close>

theorem non_create_is_noop:
  assumes "type sc \<noteq> CREATE"
  shows "beforeSubmit_9678 P sc tr = (tr, Inr ())
       \<and> beforeSubmit_9419 P sc tr
           = (tr @ [LogEntry DEBUG ''Exit'' ''Not a Create operation.''], Inr ())"
  using assms by (simp add: beforeSubmit_9678_def beforeSubmit_9419_def effect_defs)

theorem non_create_is_noop_witness:
  "type (exampleEvent EDIT (JStr ''7'')) \<noteq> CREATE
   \<and> beforeSubmit_9678
        (examplePlatform (OtherContext ''SUITELET'') (Inr [''total'' \<mapsto> JStr ''1000.00''])
           (Inr [[''total'' \<mapsto> JStr ''400.00'']]))
        (exampleEvent EDIT (JStr ''7'')) [] = ([], Inr ())
   \<and> beforeSubmit_9419
        (examplePlatform (OtherContext ''SUITELET'') (Inr [''total'' \<mapsto> JStr ''1000.00''])
           (Inr [[''total'' \<mapsto> JStr ''400.00'']]))
        (exampleEvent EDIT (JStr ''7'')) []
      = ([LogEntry DEBUG ''Exit'' ''Not a Create operation.''], Inr ())"
  using non_create_is_noop [of "exampleEvent EDIT (JStr ''7'')"
      "examplePlatform (OtherContext ''SUITELET'') (Inr [''total'' \<mapsto> JStr ''1000.00''])
         (Inr [[''total'' \<mapsto> JStr ''400.00'']])" "[]"]
  by (simp add: exampleEvent_def)

text \<open>
  The file of OTP-9419 is not free of side effects on an \<open>EDIT\<close> event: its trace is
  no longer empty.
\<close>

theorem non_create_9419_logs_counterexample:
  "fst (beforeSubmit_9419
          (examplePlatform (OtherContext ''SUITELET'') (Inr [''total'' \<mapsto> JStr ''1000.00''])
             (Inr [[''total'' \<mapsto> JStr ''400.00'']]))
          (exampleEvent EDIT (JStr ''7'')) []) \<noteq> []"
  by (simp add: beforeSubmit_9419_def effect_defs exampleEvent_def)

text \<open>
  C5. For a \<open>CREATE\<close> event whose \<open>createdfrom\<close> value is falsy (absent, \<open>null\<close>,
  the empty string), \<open>beforeSubmit\<close> returns normally: no lookup or search is called,
  nothing is thrown, and no audit entry is written (the file of OTP-9419 writes the debug
  entry \<open>Skip\<close>, \<open>src/unnamed/part_000\<close> writes nothing).
\<close>

theorem missing_linkage_skips:
  assumes "type sc = CREATE" and "\<not> truthy (getValue (newRecord sc) ''createdfrom'')"
  shows "beforeSubmit_9678 P sc tr = (tr, Inr ())
       \<and> beforeSubmit_9419 P sc tr
           = (tr @ [LogEntry DEBUG ''Skip'' ''No Sales Order linked.''], Inr ())"
  using assms by (simp add: beforeSubmit_9678_def beforeSubmit_9419_def effect_defs)

theorem missing_linkage_skips_witness:
  "type (exampleEvent CREATE (JStr '''')) = CREATE
   \<and> \<not> truthy (getValue (newRecord (exampleEvent CREATE (JStr ''''))) ''createdfrom'')
   \<and> beforeSubmit_9678
        (examplePlatform (OtherContext ''SUITELET'') (Inr [''total'' \<mapsto> JStr ''1000.00''])
           (Inr [[''total'' \<mapsto> JStr ''400.00'']]))
        (exampleEvent CREATE (JStr '''')) [] = ([], Inr ())
   \<and> beforeSubmit_9419
        (examplePlatform (OtherContext ''SUITELET'') (Inr [''total'' \<mapsto> JStr ''1000.00''])
           (Inr [[''total'' \<mapsto> JStr ''400.00'']]))
        (exampleEvent CREATE (JStr '''')) []
      = ([LogEntry DEBUG ''Skip'' ''No Sales Order linked.''], Inr ())"
  using missing_linkage_skips [of "exampleEvent CREATE (JStr '''')"
      "examplePlatform (OtherContext ''SUITELET'') (Inr [''total'' \<mapsto> JStr ''1000.00''])
         (Inr [[''total'' \<mapsto> JStr ''400.00'']])" "[]"]
  by (simp add: exampleEvent_def getValue_def)

text \<open>
  C8. On a linked \<open>CREATE\<close> event, when the order lookup fails, or the order lookup
  succeeds and the deposit search fails, \<open>getSalesOrderAndDepositTotals\<close> and
  \<open>beforeSubmit\<close> throw that very error. The failed call is the last event of the trace:
  it is made once, nothing is logged and no decision is taken. \<open>handleError\<close> throws its
  argument.
\<close>

theorem lookup_failure_propagates:
  assumes "type sc = CREATE" and "soId = getValue (newRecord sc) ''createdfrom''"
    and "truthy soId"
  shows "(search_lookupFields P soId = Inl e \<longrightarrow>
            getSalesOrderAndDepositTotals_9678 P soId tr
              = (tr @ [Lookup_Fields soId], Inl (ThrownError e))
          \<and> beforeSubmit_9678 P sc tr = (tr @ [Lookup_Fields soId], Inl (ThrownError e)))
       \<and> (search_lookupFields P soId = Inr soData \<and> search_run P soId = Inl e \<longrightarrow>
            getSalesOrderAndDepositTotals_9678 P soId tr
              = (tr @ [Lookup_Fields soId, Search_Run soId], Inl (ThrownError e))
          \<and> beforeSubmit_9678 P sc tr
              = (tr @ [Lookup_Fields soId, Search_Run soId], Inl (ThrownError e)))
       \<and> (record_load P soId = Inl e \<longrightarrow>
            getSalesOrderAndDepositTotals_9419 P soId tr
              = (tr @ [Record_Load soId], Inl (ThrownError e))
          \<and> beforeSubmit_9419 P sc tr = (tr @ [Record_Load soId], Inl (ThrownError e)))
       \<and> (record_load P soId = Inr soRec \<and> search_run P soId = Inl e \<longrightarrow>
            getSalesOrderAndDepositTotals_9419 P soId tr
              = (tr @ [Record_Load soId, Search_Run soId], Inl (ThrownError e))
          \<and> beforeSubmit_9419 P sc tr
              = (tr @ [Record_Load soId, Search_Run soId], Inl (ThrownError e)))
       \<and> handleError_9678 x tr = (tr, Inl x)
       \<and> handleError_9419 x tr = (tr, Inl x)"
proof -
  have linked: "truthy (getValue (newRecord sc) ''createdfrom'')"
    using assms by simp
  have a: "beforeSubmit_9678 P sc tr = (tr', Inl y)"
    if "getSalesOrderAndDepositTotals_9678 P soId tr = (tr', Inl y)" for tr' y
    using beforeSubmit_9678_fetch_throws [OF assms(1) linked] that assms(2) by simp
  have b: "beforeSubmit_9419 P sc tr = (tr', Inl y)"
    if "getSalesOrderAndDepositTotals_9419 P soId tr = (tr', Inl y)" for tr' y
    using beforeSubmit_9419_fetch_throws [OF assms(1) linked] that assms(2) by simp
  have h: "handleError_9678 x tr = (tr, Inl x)" "handleError_9419 x tr = (tr, Inl x)"
    by (simp_all add: handleError_9678_def handleError_9419_def js_throw_def)
  show ?thesis
    using a b h totals_9678_lookup_fails [of P soId e tr]
      totals_9678_search_fails [of P soId soData e tr]
      totals_9419_load_fails [of P soId e tr]
      totals_9419_search_fails [of P soId soRec e tr]
    by blast
qed

theorem lookup_failure_propagates_witness:
  "type (exampleEvent CREATE (JStr ''7'')) = CREATE
   \<and> JStr ''7'' = getValue (newRecord (exampleEvent CREATE (JStr ''7''))) ''createdfrom''
   \<and> truthy (JStr ''7'')
   \<and> beforeSubmit_9678
        (examplePlatform (OtherContext ''SUITELET'') (Inl ''UNEXPECTED_ERROR'') (Inr []))
        (exampleEvent CREATE (JStr ''7'')) []
      = ([Lookup_Fields (JStr ''7'')], Inl (ThrownError ''UNEXPECTED_ERROR''))
   \<and> beforeSubmit_9419
        (examplePlatform (OtherContext ''SUITELET'') (Inl ''UNEXPECTED_ERROR'') (Inr []))
        (exampleEvent CREATE (JStr ''7'')) []
      = ([Record_Load (JStr ''7'')], Inl (ThrownError ''UNEXPECTED_ERROR''))
   \<and> beforeSubmit_9678
        (examplePlatform (OtherContext ''SUITELET'') (Inr [''total'' \<mapsto> JStr ''1000.00''])
           (Inl ''SSS_USAGE_LIMIT_EXCEEDED''))
        (exampleEvent CREATE (JStr ''7'')) []
      = ([Lookup_Fields (JStr ''7''), Search_Run (JStr ''7'')],
         Inl (ThrownError ''SSS_USAGE_LIMIT_EXCEEDED''))
   \<and> beforeSubmit_9419
        (examplePlatform (OtherContext ''SUITELET'') (Inr [''total'' \<mapsto> JStr ''1000.00''])
           (Inl ''SSS_USAGE_LIMIT_EXCEEDED''))
        (exampleEvent CREATE (JStr ''7'')) []
      = ([Record_Load (JStr ''7''), Search_Run (JStr ''7'')],
         Inl (ThrownError ''SSS_USAGE_LIMIT_EXCEEDED''))"
  using
    lookup_failure_propagates [where sc = "exampleEvent CREATE (JStr ''7'')" and soId = "JStr ''7''"
      and P = "examplePlatform (OtherContext ''SUITELET'') (Inl ''UNEXPECTED_ERROR'') (Inr [])"
      and e = "''UNEXPECTED_ERROR''" and tr = "[]" and soData = Map.empty and soRec = Map.empty
      and x = "ThrownError ''UNEXPECTED_ERROR''"]
    lookup_failure_propagates [where sc = "exampleEvent CREATE (JStr ''7'')" and soId = "JStr ''7''"
      and P = "examplePlatform (OtherContext ''SUITELET'') (Inr [''total'' \<mapsto> JStr ''1000.00''])
         (Inl ''SSS_USAGE_LIMIT_EXCEEDED'')"
      and e = "''SSS_USAGE_LIMIT_EXCEEDED''" and tr = "[]"
      and soData = "[''total'' \<mapsto> JStr ''1000.00'']"
      and soRec = "[''total'' \<mapsto> JStr ''1000.00'']"
      and x = "ThrownError ''SSS_USAGE_LIMIT_EXCEEDED''"]
  by (simp add: example_defs getValue_def)

section \<open>The two files\<close>

text \<open>
  C9 (as amended). \<open>applyRestrictionLogic\<close> of the two files gives the same outcome on
  every input, normal return or the same thrown string, with traces equal up to the level
  of the log entries. When the two reads of the order total agree, \<open>beforeSubmit\<close> of
  the two files has the same outcome, and on a linked \<open>CREATE\<close> event the same trace up
  to the way the total is read and the level of the entries. On the two early returns the
  files differ by more than that: only the file of OTP-9419 writes an entry, \<open>Exit\<close> for
  an event that is not \<open>CREATE\<close> and \<open>Skip\<close> for a fulfillment without sales order.
\<close>

theorem variants_agree_up_to_fetch_levels_and_exit_notes:
  assumes "soId = getValue (newRecord sc) ''createdfrom''"
  shows "snd (applyRestrictionLogic_9678 P execContext ref soTotal depositTotal tr')
           = snd (applyRestrictionLogic_9419 P execContext ref soTotal depositTotal tr')
       \<and> map atAudit (fst (applyRestrictionLogic_9678 P execContext ref soTotal depositTotal tr'))
           = map atAudit (fst (applyRestrictionLogic_9419 P execContext ref soTotal depositTotal tr'))
       \<and> (map_sum id (\<lambda>soData. js_or (parseFloat P (property soData ''total'')) (Fin 0))
             (search_lookupFields P soId)
           = map_sum id (\<lambda>soRec. js_or (parseFloat P (getValue soRec ''total'')) (Fin 0))
             (record_load P soId) \<longrightarrow>
             snd (beforeSubmit_9678 P sc tr) = snd (beforeSubmit_9419 P sc tr)
           \<and> (type sc = CREATE \<and> truthy soId \<longrightarrow>
                 map (atAudit \<circ> sameFetch) (fst (beforeSubmit_9678 P sc tr))
                   = map (atAudit \<circ> sameFetch) (fst (beforeSubmit_9419 P sc tr))))
       \<and> (type sc \<noteq> CREATE \<longrightarrow>
             fst (beforeSubmit_9419 P sc tr)
               = fst (beforeSubmit_9678 P sc tr)
                 @ [LogEntry DEBUG ''Exit'' ''Not a Create operation.''])
       \<and> (type sc = CREATE \<and> \<not> truthy soId \<longrightarrow>
             fst (beforeSubmit_9419 P sc tr)
               = fst (beforeSubmit_9678 P sc tr)
                 @ [LogEntry DEBUG ''Skip'' ''No Sales Order linked.''])"
proof -
  have decide: "snd (applyRestrictionLogic_9678 P execContext ref soTotal depositTotal tr')
           = snd (applyRestrictionLogic_9419 P execContext ref soTotal depositTotal tr')
       \<and> map atAudit (fst (applyRestrictionLogic_9678 P execContext ref soTotal depositTotal tr'))
           = map atAudit (fst (applyRestrictionLogic_9419 P execContext ref soTotal depositTotal tr'))"
    by (simp add: applyRestrictionLogic_9678_def applyRestrictionLogic_9419_def js_try_rethrow
        log_audit_def log_debug_def js_throw_def)
  have outcome: "snd (beforeSubmit_9678 P sc tr) = snd (beforeSubmit_9419 P sc tr)"
    if "map_sum id (\<lambda>soData. js_or (parseFloat P (property soData ''total'')) (Fin 0))
          (search_lookupFields P soId)
        = map_sum id (\<lambda>soRec. js_or (parseFloat P (getValue soRec ''total'')) (Fin 0))
          (record_load P soId)"
    by (rule beforeSubmit_outcomes_agree [OF assms that])
  have linked: "map (atAudit \<circ> sameFetch) (fst (beforeSubmit_9678 P sc tr))
               = map (atAudit \<circ> sameFetch) (fst (beforeSubmit_9419 P sc tr))"
    if "map_sum id (\<lambda>soData. js_or (parseFloat P (property soData ''total'')) (Fin 0))
          (search_lookupFields P soId)
        = map_sum id (\<lambda>soRec. js_or (parseFloat P (getValue soRec ''total'')) (Fin 0))
          (record_load P soId)"
      and "type sc = CREATE" and "truthy soId"
    by (rule beforeSubmit_traces_agree [OF that(2) assms that(3) that(1)])
  have other: "fst (beforeSubmit_9419 P sc tr)
               = fst (beforeSubmit_9678 P sc tr)
                 @ [LogEntry DEBUG ''Exit'' ''Not a Create operation.'']"
    if "type sc \<noteq> CREATE"
    using that by (simp add: beforeSubmit_9678_def beforeSubmit_9419_def effect_defs)
  have unlinked: "fst (beforeSubmit_9419 P sc tr)
               = fst (beforeSubmit_9678 P sc tr)
                 @ [LogEntry DEBUG ''Skip'' ''No Sales Order linked.'']"
    if "type sc = CREATE" and "\<not> truthy soId"
    using that assms by (simp add: beforeSubmit_9678_def beforeSubmit_9419_def effect_defs)
  show ?thesis
    using decide outcome linked other unlinked by blast
qed

theorem variants_agree_up_to_fetch_levels_and_exit_notes_witness:
  "beforeSubmit_9678
     (examplePlatform (OtherContext ''SUITELET'') (Inr [''total'' \<mapsto> JStr ''1000.00''])
        (Inr [[''total'' \<mapsto> JStr ''1200.00'']]))
     (exampleEvent CREATE (JStr ''7'')) []
     = ([Lookup_Fields (JStr ''7''), Search_Run (JStr ''7''),
         LogEntry AUDIT ''Deposit Validation''
           ''Sales Order ID: 7 | Sales Order Total: 1000 | Deposit Total: 1200'',
         LogEntry AUDIT ''Validation Passed''
           ''Deposit sufficient for Sales Order 7. Single fulfillment allowed.''],
        Inr ())
   \<and> beforeSubmit_9419
     (examplePlatform (OtherContext ''SUITELET'') (Inr [''total'' \<mapsto> JStr ''1000.00''])
        (Inr [[''total'' \<mapsto> JStr ''1200.00'']]))
     (exampleEvent CREATE (JStr ''7'')) []
     = ([Record_Load (JStr ''7''), Search_Run (JStr ''7''),
         LogEntry DEBUG ''Deposit Validation''
           ''Sales Order ID: 7 | Sales Order Total: 1000 | Deposit Total: 1200'',
         LogEntry DEBUG ''Validation Passed''
           ''Deposit sufficient for Sales Order 7. Single fulfillment allowed.''],
        Inr ())
   \<and> fst (beforeSubmit_9419
          (examplePlatform (OtherContext ''SUITELET'') (Inr [''total'' \<mapsto> JStr ''1000.00''])
             (Inr [[''total'' \<mapsto> JStr ''1200.00'']]))
          (exampleEvent EDIT (JStr ''7'')) [])
     = fst (beforeSubmit_9678
          (examplePlatform (OtherContext ''SUITELET'') (Inr [''total'' \<mapsto> JStr ''1000.00''])
             (Inr [[''total'' \<mapsto> JStr ''1200.00'']]))
          (exampleEvent EDIT (JStr ''7'')) [])
       @ [LogEntry DEBUG ''Exit'' ''Not a Create operation.'']
   \<and> fst (beforeSubmit_9419
          (examplePlatform (OtherContext ''SUITELET'') (Inr [''total'' \<mapsto> JStr ''1000.00''])
             (Inr [[''total'' \<mapsto> JStr ''1200.00'']]))
          (exampleEvent CREATE (JStr '''')) [])
     = fst (beforeSubmit_9678
          (examplePlatform (OtherContext ''SUITELET'') (Inr [''total'' \<mapsto> JStr ''1000.00''])
             (Inr [[''total'' \<mapsto> JStr ''1200.00'']]))
          (exampleEvent CREATE (JStr '''')) [])
       @ [LogEntry DEBUG ''Skip'' ''No Sales Order linked.'']"
  using
    variants_agree_up_to_fetch_levels_and_exit_notes
      [where sc = "exampleEvent CREATE (JStr ''7'')" and soId = "JStr ''7''"
        and P = "examplePlatform (OtherContext ''SUITELET'')
                   (Inr [''total'' \<mapsto> JStr ''1000.00'']) (Inr [[''total'' \<mapsto> JStr ''1200.00'']])"
        and tr = "[]" and tr' = "[]" and execContext = "OtherContext ''SUITELET''"
        and ref = "JStr ''7''" and soTotal = "Fin 1000" and depositTotal = "Fin 1200"]
    variants_agree_up_to_fetch_levels_and_exit_notes
      [where sc = "exampleEvent EDIT (JStr ''7'')" and soId = "JStr ''7''"
        and P = "examplePlatform (OtherContext ''SUITELET'')
                   (Inr [''total'' \<mapsto> JStr ''1000.00'']) (Inr [[''total'' \<mapsto> JStr ''1200.00'']])"
        and tr = "[]" and tr' = "[]" and execContext = "OtherContext ''SUITELET''"
        and ref = "JStr ''7''" and soTotal = "Fin 1000" and depositTotal = "Fin 1200"]
    variants_agree_up_to_fetch_levels_and_exit_notes
      [where sc = "exampleEvent CREATE (JStr '''')" and soId = "JStr ''''"
        and P = "examplePlatform (OtherContext ''SUITELET'')
                   (Inr [''total'' \<mapsto> JStr ''1000.00'']) (Inr [[''total'' \<mapsto> JStr ''1200.00'']])"
        and tr = "[]" and tr' = "[]" and execContext = "OtherContext ''SUITELET''"
        and ref = "JStr ''7''" and soTotal = "Fin 1000" and depositTotal = "Fin 1200"]
  by (simp add: example_defs value_defs parse_defs beforeSubmit_9678_def beforeSubmit_9419_def
      getSalesOrderAndDepositTotals_9678_def getSalesOrderAndDepositTotals_9419_def
      applyRestrictionLogic_9678_def applyRestrictionLogic_9419_def
      handleError_9678_def handleError_9419_def effect_defs Let_def)

text \<open>
  The files do not differ only in the way of reading and in log levels: on an \<open>EDIT\<close>
  event, and on a \<open>CREATE\<close> event without sales order, the traces differ even when reads
  and levels are identified.
\<close>

theorem early_exit_notes_counterexample:
  "map (atAudit \<circ> sameFetch)
     (fst (beforeSubmit_9678
        (examplePlatform (OtherContext ''SUITELET'') (Inr [''total'' \<mapsto> JStr ''1000.00''])
           (Inr [[''total'' \<mapsto> JStr ''1200.00'']]))
        (exampleEvent EDIT (JStr ''7'')) []))
   \<noteq> map (atAudit \<circ> sameFetch)
     (fst (beforeSubmit_9419
        (examplePlatform (OtherContext ''SUITELET'') (Inr [''total'' \<mapsto> JStr ''1000.00''])
           (Inr [[''total'' \<mapsto> JStr ''1200.00'']]))
        (exampleEvent EDIT (JStr ''7'')) []))
   \<and> map (atAudit \<circ> sameFetch)
     (fst (beforeSubmit_9678
        (examplePlatform (OtherContext ''SUITELET'') (Inr [''total'' \<mapsto> JStr ''1000.00''])
           (Inr [[''total'' \<mapsto> JStr ''1200.00'']]))
        (exampleEvent CREATE (JStr '''')) []))
   \<noteq> map (atAudit \<circ> sameFetch)
     (fst (beforeSubmit_9419
        (examplePlatform (OtherContext ''SUITELET'') (Inr [''total'' \<mapsto> JStr ''1000.00''])
           (Inr [[''total'' \<mapsto> JStr ''1200.00'']]))
        (exampleEvent CREATE (JStr '''')) []))"
  by (simp add: beforeSubmit_9678_def beforeSubmit_9419_def effect_defs exampleEvent_def
      getValue_def)

section \<open>The totals\<close>




text \<open>
  C7 (as amended). When no stored \<open>total\<close> that parses is negative, for the order and for
  every deposit result, and rounding keeps non-negative sums non-negative, both totals
  returned are \<open>>= 0\<close>.
\<close>

theorem totals_nonnegative_for_nonnegative_fields:
  assumes "search_lookupFields P soId = Inr soData" and "record_load P soId = Inr soRec"
    and "search_run P soId = Inr results"
    and "\<forall>x\<ge>0. js_ge (roundNumber P x) (Fin 0)"
    and "parseFloat P (property soData ''total'') = NaN
         \<or> js_ge (parseFloat P (property soData ''total'')) (Fin 0)"
    and "parseFloat P (getValue soRec ''total'') = NaN
         \<or> js_ge (parseFloat P (getValue soRec ''total'')) (Fin 0)"
    and "\<forall>r\<in>set results. parseFloat P (getValue r ''total'') = NaN
                          \<or> js_ge (parseFloat P (getValue r ''total'')) (Fin 0)"
  shows "\<exists>soTotal soTotal' depositTotal.
           snd (getSalesOrderAndDepositTotals_9678 P soId tr) = Inr (soTotal, depositTotal)
         \<and> snd (getSalesOrderAndDepositTotals_9419 P soId tr) = Inr (soTotal', depositTotal)
         \<and> js_ge soTotal (Fin 0) \<and> js_ge soTotal' (Fin 0) \<and> js_ge depositTotal (Fin 0)"
proof -
  let ?contribution = "\<lambda>r. js_or (parseFloat P (getValue r ''total'')) (Fin 0)"
  let ?dep = "foldl (js_add (roundNumber P)) (Fin 0) (map ?contribution results)"
  have zero: "js_ge (Fin 0) (Fin 0)"
    by (simp add: js_ge_def)
  have each_nonneg: "\<forall>b\<in>set (map ?contribution results). js_ge b (Fin 0)"
    using assms(7) by (auto intro: js_or_nonneg)
  have dep: "js_ge ?dep (Fin 0)"
    by (rule foldl_js_add_nonneg [OF assms(4) zero each_nonneg])
  have so: "js_ge (js_or (parseFloat P (property soData ''total'')) (Fin 0)) (Fin 0)"
    by (rule js_or_nonneg [OF assms(5)])
  have so': "js_ge (js_or (parseFloat P (getValue soRec ''total'')) (Fin 0)) (Fin 0)"
    by (rule js_or_nonneg [OF assms(6)])
  show ?thesis
    using dep so so' totals_9678 [OF assms(1) assms(3), of tr]
      totals_9419 [OF assms(2) assms(3), of tr]
    by simp
qed

theorem totals_nonnegative_for_nonnegative_fields_witness:
  "js_ge (Fin 1000) (Fin 0) \<and> js_ge (Fin 400) (Fin 0)
   \<and> snd (getSalesOrderAndDepositTotals_9678
        (examplePlatform (OtherContext ''SUITELET'') (Inr [''total'' \<mapsto> JStr ''1000.00''])
           (Inr [[''total'' \<mapsto> JStr ''400.00''], [''total'' \<mapsto> JStr ''n/a'']]))
        (JStr ''7'') []) = Inr (Fin 1000, Fin 400)
   \<and> snd (getSalesOrderAndDepositTotals_9419
        (examplePlatform (OtherContext ''SUITELET'') (Inr [''total'' \<mapsto> JStr ''1000.00''])
           (Inr [[''total'' \<mapsto> JStr ''400.00''], [''total'' \<mapsto> JStr ''n/a'']]))
        (JStr ''7'') []) = Inr (Fin 1000, Fin 400)"
  using totals_nonnegative_for_nonnegative_fields
    [where P = "examplePlatform (OtherContext ''SUITELET'')
        (Inr [''total'' \<mapsto> JStr ''1000.00''])
        (Inr [[''total'' \<mapsto> JStr ''400.00''], [''total'' \<mapsto> JStr ''n/a'']])"
      and soId = "JStr ''7''" and tr = "[]"
      and soData = "[''total'' \<mapsto> JStr ''1000.00'']"
      and soRec = "[''total'' \<mapsto> JStr ''1000.00'']"
      and results = "[[''total'' \<mapsto> JStr ''400.00''], [''total'' \<mapsto> JStr ''n/a'']]"]
  by (simp add: example_defs value_defs parse_defs getSalesOrderAndDepositTotals_9678_def
      getSalesOrderAndDepositTotals_9419_def effect_defs)

text \<open>
  Without that condition the totals can be negative: the scripts take a stored total of
  \<open>-5.00\<close> and a deposit of \<open>-2.50\<close> as they are.
\<close>

theorem negative_stored_total_counterexample:
  "snd (getSalesOrderAndDepositTotals_9678
          (examplePlatform (OtherContext ''SUITELET'') (Inr [''total'' \<mapsto> JStr ''-5.00''])
             (Inr [[''total'' \<mapsto> JStr ''-2.50'']]))
          (JStr ''7'') []) = Inr (Fin (- 5), Fin (- (5 / 2)))
   \<and> \<not> js_ge (Fin (- 5)) (Fin 0) \<and> \<not> js_ge (Fin (- (5 / 2))) (Fin 0)"
  by (simp add: example_defs value_defs parse_defs getSalesOrderAndDepositTotals_9678_def
      effect_defs)

text \<open>
  C10. On a linked \<open>CREATE\<close> event whose sales order has a missing or unparseable total
  (\<open>parseFloat\<close> gives NaN), the order total is 0; whenever the summed deposits are
  \<open>>= 0\<close>, the decision then allows in every execution context and \<open>beforeSubmit\<close>
  returns normally.
\<close>

theorem unparseable_order_total_allows:
  assumes "type sc = CREATE" and "soId = getValue (newRecord sc) ''createdfrom''"
    and "truthy soId"
    and "search_lookupFields P soId = Inr soData" and "record_load P soId = Inr soRec"
    and "search_run P soId = Inr results"
    and "parseFloat P (property soData ''total'') = NaN"
    and "parseFloat P (getValue soRec ''total'') = NaN"
    and "depositTotal = foldl (js_add (roundNumber P)) (Fin 0)
           (map (\<lambda>r. js_or (parseFloat P (getValue r ''total'')) (Fin 0)) results)"
    and "js_ge depositTotal (Fin 0)"
  shows "snd (getSalesOrderAndDepositTotals_9678 P soId tr) = Inr (Fin 0, depositTotal)
       \<and> snd (getSalesOrderAndDepositTotals_9419 P soId tr) = Inr (Fin 0, depositTotal)
       \<and> snd (applyRestrictionLogic_9678 P execContext soId (Fin 0) depositTotal tr') = Inr ()
       \<and> snd (applyRestrictionLogic_9419 P execContext soId (Fin 0) depositTotal tr') = Inr ()
       \<and> snd (beforeSubmit_9678 P sc tr) = Inr ()
       \<and> snd (beforeSubmit_9419 P sc tr) = Inr ()"
proof -
  have linked: "truthy (getValue (newRecord sc) ''createdfrom'')"
    using assms(2,3) by simp
  have no_lt: "\<not> js_lt depositTotal (Fin 0)"
    by (rule js_ge_not_lt [OF assms(10)])
  have t1: "getSalesOrderAndDepositTotals_9678 P soId tr
              = (tr @ [Lookup_Fields soId, Search_Run soId], Inr (Fin 0, depositTotal))"
    using totals_9678 [OF assms(4) assms(6), of tr] assms(7,9) by (simp add: js_or_def num_truthy_def)
  have t2: "getSalesOrderAndDepositTotals_9419 P soId tr
              = (tr @ [Record_Load soId, Search_Run soId], Inr (Fin 0, depositTotal))"
    using totals_9419 [OF assms(5) assms(6), of tr] assms(8,9) by (simp add: js_or_def num_truthy_def)
  have d1: "snd (applyRestrictionLogic_9678 P c soId (Fin 0) depositTotal t) = Inr ()" for c t
    using no_lt by (simp add: applyRestrictionLogic_9678_def js_try_rethrow log_audit_def)
  have d2: "snd (applyRestrictionLogic_9419 P c soId (Fin 0) depositTotal t) = Inr ()" for c t
    using no_lt
    by (simp add: applyRestrictionLogic_9419_def js_try_rethrow log_audit_def log_debug_def)
  have b1: "snd (beforeSubmit_9678 P sc tr) = Inr ()"
    using beforeSubmit_9678_fetched [OF assms(1) linked, of P tr _ "Fin 0" depositTotal]
      t1 d1 assms(2) by simp
  have b2: "snd (beforeSubmit_9419 P sc tr) = Inr ()"
    using beforeSubmit_9419_fetched [OF assms(1) linked, of P tr _ "Fin 0" depositTotal]
      t2 d2 assms(2) by simp
  show ?thesis
    using t1 t2 d1 d2 b1 b2 by simp
qed

theorem unparseable_order_total_allows_witness:
  "type (exampleEvent CREATE (JStr ''7'')) = CREATE
   \<and> truthy (JStr ''7'')
   \<and> parseFloat (examplePlatform (OtherContext ''SUITELET'') (Inr [''total'' \<mapsto> JStr ''n/a''])
          (Inr [[''total'' \<mapsto> JStr ''400.00'']])) (JStr ''n/a'') = NaN
   \<and> js_ge (Fin 400) (Fin 0)
   \<and> beforeSubmit_9678
        (examplePlatform (OtherContext ''SUITELET'') (Inr [''total'' \<mapsto> JStr ''n/a''])
           (Inr [[''total'' \<mapsto> JStr ''400.00'']]))
        (exampleEvent CREATE (JStr ''7'')) []
      = ([Lookup_Fields (JStr ''7''), Search_Run (JStr ''7''),
          LogEntry AUDIT ''Deposit Validation''
            ''Sales Order ID: 7 | Sales Order Total: 0 | Deposit Total: 400'',
          LogEntry AUDIT ''Validation Passed''
            ''Deposit sufficient for Sales Order 7. Single fulfillment allowed.''],
         Inr ())
   \<and> snd (beforeSubmit_9419
        (examplePlatform (OtherContext ''SUITELET'') (Inr [''total'' \<mapsto> JStr ''n/a''])
           (Inr [[''total'' \<mapsto> JStr ''400.00'']]))
        (exampleEvent CREATE (JStr ''7'')) []) = Inr ()"
  using unparseable_order_total_allows
    [where sc = "exampleEvent CREATE (JStr ''7'')" and soId = "JStr ''7''"
      and P = "examplePlatform (OtherContext ''SUITELET'') (Inr [''total'' \<mapsto> JStr ''n/a''])
           (Inr [[''total'' \<mapsto> JStr ''400.00'']])"
      and soData = "[''total'' \<mapsto> JStr ''n/a'']" and soRec = "[''total'' \<mapsto> JStr ''n/a'']"
      and results = "[[''total'' \<mapsto> JStr ''400.00'']]" and depositTotal = "Fin 400"
      and tr = "[]" and tr' = "[]" and execContext = "OtherContext ''SUITELET''"]
  by (simp add: example_defs value_defs parse_defs beforeSubmit_9678_def
      getSalesOrderAndDepositTotals_9678_def applyRestrictionLogic_9678_def
      handleError_9678_def effect_defs Let_def)

end
